theory Spec2Isabelle
  imports Main
begin

section \<open>FileVault authorized restart (munkilib/authrestart.py)\<close>

text \<open>
  A shallow embedding of \<^verbatim>\<open>code/client/munkilib/authrestart.py\<close>. The module talks to
  collaborators that are not part of it: the preference store (\<^verbatim>\<open>prefs.pref\<close>), the OS
  version query (\<^verbatim>\<open>osutils.getOsVersion\<close>), the plist reader and writer
  (\<^verbatim>\<open>FoundationPlist\<close>), the logger (\<^verbatim>\<open>display\<close>) and \<^verbatim>\<open>subprocess\<close>. What they
  answer is a parameter of the model, the record \<open>world\<close>; what the module asks of them
  is recorded, in program order, as a list of events. Every function of the module is
  a function from the world to its outcome and the events it caused. The outcome is the
  return value (\<open>Inr\<close>) or the exception that leaves the function (\<open>Inl\<close>).

  The answers of the world are fixed for the duration of one call.
  \<^verbatim>\<open>subprocess.check_output\<close> returns the captured output (exit status 0), raises
  \<^verbatim>\<open>CalledProcessError\<close> carrying it (any other exit status), or raises \<^verbatim>\<open>OSError\<close>
  when the command cannot be launched. \<^verbatim>\<open>subprocess.Popen\<close> and \<^verbatim>\<open>subprocess.call\<close>
  are taken to start their process.
\<close>

subsection \<open>Python values\<close>

text \<open>What \<^verbatim>\<open>prefs.pref\<close> may hand back: \<^verbatim>\<open>None\<close>, a boolean, an integer or a string.\<close>

datatype pyval = PNone | PBool bool | PInt int | PStr string

text \<open>Truth value testing, as \<^verbatim>\<open>if x\<close>, \<^verbatim>\<open>not x\<close> and \<^verbatim>\<open>x and y\<close> do it.\<close>

fun truthy :: "pyval \<Rightarrow> bool" where
  "truthy PNone = False"
| "truthy (PBool b) = b"
| "truthy (PInt i) = (i \<noteq> 0)"
| "truthy (PStr s) = (s \<noteq> [])"

text \<open>
  Tuples of integers compare lexicographically, a proper prefix being smaller:
  \<^verbatim>\<open>(10, 8, 0) >= (10, 8)\<close> holds and \<^verbatim>\<open>(10,) >= (10, 8)\<close> does not.
\<close>

fun tuple_ge :: "int list \<Rightarrow> int list \<Rightarrow> bool" where
  "tuple_ge xs [] = True"
| "tuple_ge [] (y # ys) = False"
| "tuple_ge (x # xs) (y # ys) = (if x = y then tuple_ge xs ys else y < x)"

text \<open>The substring test \<^verbatim>\<open>needle in hay\<close> on byte strings.\<close>

fun startswith :: "string \<Rightarrow> string \<Rightarrow> bool" where
  "startswith hay [] = True"
| "startswith [] (n # ns) = False"
| "startswith (h # hs) (n # ns) = (h = n \<and> startswith hs ns)"

fun str_in :: "string \<Rightarrow> string \<Rightarrow> bool" where
  "str_in needle [] = (needle = [])"
| "str_in needle (h # hs) = (startswith (h # hs) needle \<or> str_in needle hs)"

text \<open>
  The strings of a property list are \<^verbatim>\<open>unicode\<close> objects: sequences of code units,
  not of bytes. \<^verbatim>\<open>s.strip()\<close> on such a string removes leading and trailing
  whitespace, which for \<^verbatim>\<open>unicode\<close> in Python 2.7 is U+0009 to U+000D, U+001C to
  U+0020, U+0085, U+00A0, U+1680, U+180E, U+2000 to U+200A, U+2028, U+2029, U+202F,
  U+205F and U+3000.
\<close>

type_synonym unicode = "nat list"

definition isspace :: "nat \<Rightarrow> bool" where
  "isspace c =
     ((0x09 \<le> c \<and> c \<le> 0x0D) \<or> (0x1C \<le> c \<and> c \<le> 0x20) \<or> c = 0x85 \<or> c = 0xA0
      \<or> c = 0x1680 \<or> c = 0x180E \<or> (0x2000 \<le> c \<and> c \<le> 0x200A)
      \<or> c = 0x2028 \<or> c = 0x2029 \<or> c = 0x202F \<or> c = 0x205F \<or> c = 0x3000)"

definition strip :: "unicode \<Rightarrow> unicode" where
  "strip s = rev (dropWhile isspace (rev (dropWhile isspace s)))"

text \<open>An ASCII literal as a \<^verbatim>\<open>unicode\<close> string.\<close>

definition unicode_of :: "string \<Rightarrow> unicode" where
  "unicode_of s = map of_char s"

subsection \<open>The world and the events\<close>

text \<open>The exceptions that the module raises or lets through without catching them.\<close>

datatype exn = OSError | AttributeError | TypeError

text \<open>How \<^verbatim>\<open>subprocess.check_output\<close> ends.\<close>

datatype completed = Returned string | CalledProcessError string | CannotLaunch

text \<open>
  How \<^verbatim>\<open>FoundationPlist.readPlist\<close> ends: with the exception the module catches, or
  with the root object of the document. The root is a dictionary or something else
  (an array, a string, a number, ...), on which indexing with a key raises
  \<^verbatim>\<open>TypeError\<close>. In a dictionary a missing field is \<open>None\<close>, where indexing raises
  \<^verbatim>\<open>KeyError\<close>; a field is a string or something else (a number, a date, an array,
  ...), which has no \<^verbatim>\<open>strip\<close> method.
\<close>

datatype plvalue = PlString unicode | PlNotString

datatype plist_read =
    NSPropertyListSerializationException
  | Dictionary "string \<Rightarrow> plvalue option"
  | NotDictionary

record world =
  getOsVersion :: "int list"
  pref :: "string \<Rightarrow> pyval"
  check_output :: "string list \<Rightarrow> completed"
  readPlist :: "pyval \<Rightarrow> plist_read"
  writePlistToString :: "(string \<times> unicode) list \<Rightarrow> string"
  communicate :: "string list \<Rightarrow> string \<Rightarrow> string \<times> string"

datatype level = Debug1 | Info | Warning | Error

datatype event =
    Display level string "pyval list"
  | GetOsVersion
  | Pref string
  | CheckOutput "string list"
  | ReadPlist pyval
  | WritePlistToString "(string \<times> unicode) list"
  | Popen "string list"
  | Communicate string
  | Call "string list"

subsection \<open>The probes\<close>

text \<open>Only \<^verbatim>\<open>CalledProcessError\<close> is caught; an \<^verbatim>\<open>OSError\<close> leaves the probe.\<close>

definition filevault_is_active :: "world \<Rightarrow> (exn + bool) \<times> event list" where
  "filevault_is_active w =
    (let active_cmd = [''/usr/bin/fdesetup'', ''isactive''];
         t = [Display Debug1 ''Checking if FileVault is enabled...'' [],
              CheckOutput active_cmd]
     in case check_output w active_cmd of
          CannotLaunch \<Rightarrow> (Inl OSError, t)
        | CalledProcessError output \<Rightarrow>
            (if output \<noteq> [] \<and> str_in ''false'' output
             then (Inr False,
                   t @ [Display Warning ''FileVault appears to be disabled...'' []])
             else if output = []
             then (Inr False, t @ [Display Warning
                     ''Encountered problem determining FileVault status...'' []])
             else (Inr False, t @ [Display Warning output []]))
        | Returned is_active \<Rightarrow>
            (if str_in ''true'' is_active then (Inr True, t) else (Inr False, t)))"

definition supports_auth_restart :: "world \<Rightarrow> (exn + bool) \<times> event list" where
  "supports_auth_restart w =
    (let support_cmd = [''/usr/bin/fdesetup'', ''supportsauthrestart''];
         t = [Display Debug1 ''Checking if FileVault can perform an AuthRestart...'' [],
              CheckOutput support_cmd]
     in case check_output w support_cmd of
          CannotLaunch \<Rightarrow> (Inl OSError, t)
        | CalledProcessError output \<Rightarrow>
            (if output \<noteq> []
             then (Inr False, t @ [Display Warning output []])
             else (Inr False, t @ [Display Warning
                     ''Encountered problem determining AuthRestart status...'' []]))
        | Returned is_supported \<Rightarrow>
            (if str_in ''true'' is_supported
             then (Inr True, t @ [Display Debug1 ''FileVault supports AuthRestart...'' []])
             else (Inr False, t @ [Display Warning
                     ''FileVault AuthRestart is not supported...'' []])))"

text \<open>
  The \<^verbatim>\<open>try\<close> block catches \<^verbatim>\<open>NSPropertyListSerializationException\<close> and
  \<^verbatim>\<open>KeyError\<close>. The \<^verbatim>\<open>TypeError\<close> of indexing a root that is not a dictionary and
  the \<^verbatim>\<open>AttributeError\<close> of calling \<^verbatim>\<open>strip\<close> on a field that is not a string are
  not caught.
\<close>

definition get_auth_restart_key :: "world \<Rightarrow> (exn + unicode) \<times> event list" where
  "get_auth_restart_key w =
    (let recoverykeyplist = pref w ''RecoveryKeyFile'';
         t = [Pref ''RecoveryKeyFile'']
     in if \<not> truthy recoverykeyplist
        then (Inr [], t @ [Display Warning ''RecoveryKeyFile preference is not set'' []])
        else
          let t = t @ [Display Debug1 ''RecoveryKeyFile preference is set to %s...''
                         [recoverykeyplist],
                       ReadPlist recoverykeyplist]
          in case readPlist w recoverykeyplist of
               NSPropertyListSerializationException \<Rightarrow>
                 (Inr [], t @ [Display Error ''We had trouble getting info from %s...''
                                 [recoverykeyplist]])
             | NotDictionary \<Rightarrow> (Inl TypeError, t)
             | Dictionary keyplist \<Rightarrow>
                 (case keyplist ''RecoveryKey'' of
                    None \<Rightarrow>
                      (Inr [], t @ [Display Error ''Problem with key: RecoveryKey in %s...''
                                      [recoverykeyplist]])
                  | Some PlNotString \<Rightarrow> (Inl AttributeError, t)
                  | Some (PlString v) \<Rightarrow> (Inr (strip v), t)))"

subsection \<open>The gate\<close>

text \<open>
  \<^verbatim>\<open>a and b\<close> yields \<open>a\<close> when \<open>a\<close> is false and \<open>b\<close> otherwise, so the gate returns
  the first false operand as it is (the preference value, when that is the one). An
  exception of a probe or of the lookup leaves the gate.
\<close>

definition can_attempt_auth_restart :: "world \<Rightarrow> (exn + pyval) \<times> event list" where
  "can_attempt_auth_restart w =
    (let os_version_tuple = getOsVersion w;
         t = [GetOsVersion]
     in if \<not> tuple_ge os_version_tuple [10, 8] then (Inr (PBool False), t)
        else
          let p = pref w ''PerformAuthRestarts'';
              t = t @ [Pref ''PerformAuthRestarts'']
          in if \<not> truthy p then (Inr p, t)
             else
               let (active, ta) = filevault_is_active w;
                   t = t @ ta
               in (case active of
                     Inl e \<Rightarrow> (Inl e, t)
                   | Inr active \<Rightarrow>
                       if \<not> active then (Inr (PBool False), t)
                       else
                         let (supported, ts) = supports_auth_restart w;
                             t = t @ ts
                         in (case supported of
                               Inl e \<Rightarrow> (Inl e, t)
                             | Inr supported \<Rightarrow>
                                 if \<not> supported then (Inr (PBool False), t)
                                 else
                                   let (k, tk) = get_auth_restart_key w
                                   in (case k of
                                         Inl e \<Rightarrow> (Inl e, t @ tk)
                                       | Inr k \<Rightarrow> (Inr (PBool (k \<noteq> [])), t @ tk)))))"

subsection \<open>The executor\<close>

definition authrestart_cmd :: "string list" where
  "authrestart_cmd = [''/usr/bin/fdesetup'', ''authrestart'', ''-inputplist'']"

definition perform_auth_restart :: "world \<Rightarrow> (exn + bool) \<times> event list" where
  "perform_auth_restart w =
    (let t = [Display Debug1
                ''Checking if performing an Auth Restart is fully supported...'' []];
         (supported, ts) = supports_auth_restart w;
         t = t @ ts
     in (case supported of
           Inl e \<Rightarrow> (Inl e, t)
         | Inr supported \<Rightarrow>
             if \<not> supported
             then (Inr False, t @ [Display Warning
                     (''Machine doesn'' @ [CHR 0x27] @ ''t support Authorized Restarts...'')
                     []])
             else
               let t = t @ [Display Debug1 ''Machine supports Authorized Restarts...'' []];
                   (recovery_key, tk) = get_auth_restart_key w;
                   t = t @ tk
               in (case recovery_key of
                     Inl e \<Rightarrow> (Inl e, t)
                   | Inr recovery_key \<Rightarrow>
                       if recovery_key = [] then (Inr False, t)
                       else
                         let key = [(''Password'', recovery_key)];
                             inputplist = writePlistToString w key;
                             (dummy_out, err) = communicate w authrestart_cmd inputplist;
                             os_version_tuple = getOsVersion w;
                             t = t @ [WritePlistToString key,
                                      Display Info
                                        ''Attempting an Authorized Restart now...'' [],
                                      Popen authrestart_cmd,
                                      Communicate inputplist,
                                      GetOsVersion]
                         in if tuple_ge os_version_tuple [10, 12]
                                 \<and> str_in ''System is being restarted'' err
                            then (Inr True, t)
                            else if err \<noteq> []
                            then (Inr False, t @ [Display Error err []])
                            else (Inr True, t))))"

subsection \<open>The top-level flow\<close>

definition shutdown_cmd :: "string list" where
  "shutdown_cmd = [''/sbin/shutdown'', ''-r'', ''now'']"

text \<open>
  The condition of the outer \<^verbatim>\<open>if\<close> is an \<^verbatim>\<open>and\<close> chain: a preference that is
  false ends it, and the next preference is not read. An exception of the FileVault
  probe or of the executor leaves the flow before the fallback.
\<close>

definition do_authorized_or_normal_restart :: "world \<Rightarrow> (exn + unit) \<times> event list" where
  "do_authorized_or_normal_restart w =
    (let os_version_tuple = getOsVersion w;
         t = [Display Info ''Restarting now.'' [], GetOsVersion,
              Pref ''PerformAuthRestarts''];
         fallback = [Display Debug1 ''Performing a regular restart...'' [],
                     Call shutdown_cmd]
     in if \<not> truthy (pref w ''PerformAuthRestarts'') then (Inr (), t @ fallback)
        else
          let t = t @ [Pref ''RecoveryKeyFile'']
          in if \<not> truthy (pref w ''RecoveryKeyFile'') then (Inr (), t @ fallback)
             else if \<not> tuple_ge os_version_tuple [10, 8] then (Inr (), t @ fallback)
             else
               let (active, ta) = filevault_is_active w;
                   t = t @ ta
               in (case active of
                     Inl e \<Rightarrow> (Inl e, t)
                   | Inr active \<Rightarrow>
                       if \<not> active then (Inr (), t @ fallback)
                       else
                         let t = t @ [Display Debug1
                                        ''Configured to perform AuthRestarts...'' []];
                             (ok, tp) = perform_auth_restart w;
                             t = t @ tp
                         in (case ok of
                               Inl e \<Rightarrow> (Inl e, t)
                             | Inr ok \<Rightarrow>
                                 if \<not> ok
                                 then (Inr (), t @ [Display Warning
                                   ''Authorized Restart failed. Performing normal restart...''
                                   []] @ fallback)
                                 else (Inr (), t))))"

subsection \<open>Observations on the events\<close>

definition isactive_cmd :: "string list" where
  "isactive_cmd = [''/usr/bin/fdesetup'', ''isactive'']"

definition supportsauthrestart_cmd :: "string list" where
  "supportsauthrestart_cmd = [''/usr/bin/fdesetup'', ''supportsauthrestart'']"

text \<open>The restart mechanisms a run invoked, in order.\<close>

datatype mechanism = AuthRestartHelper | PlainRestart

fun mechanisms :: "event list \<Rightarrow> mechanism list" where
  "mechanisms [] = []"
| "mechanisms (Popen argv # t) =
     (if argv = authrestart_cmd then AuthRestartHelper # mechanisms t else mechanisms t)"
| "mechanisms (Call argv # t) =
     (if argv = shutdown_cmd then PlainRestart # mechanisms t else mechanisms t)"
| "mechanisms (e # t) = mechanisms t"

text \<open>The argument vectors a run handed to \<^verbatim>\<open>subprocess\<close>, in order.\<close>

fun spawns :: "event list \<Rightarrow> string list list" where
  "spawns [] = []"
| "spawns (CheckOutput argv # t) = argv # spawns t"
| "spawns (Popen argv # t) = argv # spawns t"
| "spawns (Call argv # t) = argv # spawns t"
| "spawns (e # t) = spawns t"

text \<open>The messages a run logged at one level, with their arguments, in order.\<close>

fun displayed :: "level \<Rightarrow> event list \<Rightarrow> (string \<times> pyval list) list" where
  "displayed l [] = []"
| "displayed l (Display l' msg args # t) =
     (if l' = l then (msg, args) # displayed l t else displayed l t)"
| "displayed l (e # t) = displayed l t"

subsection \<open>Terms of the statements\<close>

text \<open>
  The credential the lookup returns (empty when it raises), and whether it returns one
  that is not empty.
\<close>

definition credential :: "world \<Rightarrow> unicode" where
  "credential w = (case fst (get_auth_restart_key w) of Inr k \<Rightarrow> k | Inl e \<Rightarrow> [])"

definition has_credential :: "world \<Rightarrow> bool" where
  "has_credential w =
     (case fst (get_auth_restart_key w) of Inr k \<Rightarrow> k \<noteq> [] | Inl e \<Rightarrow> False)"

text \<open>
  What the executor writes to the helper's standard input, and what the helper then
  leaves on standard error.
\<close>

definition helper_input :: "world \<Rightarrow> string" where
  "helper_input w = writePlistToString w [(''Password'', credential w)]"

definition helper_stderr :: "world \<Rightarrow> string" where
  "helper_stderr w = snd (communicate w authrestart_cmd (helper_input w))"

definition msg_unsupported :: string where
  "msg_unsupported = ''Machine doesn'' @ [CHR 0x27] @ ''t support Authorized Restarts...''"

text \<open>The first thing the executor does is log this message; nothing else logs it.\<close>

definition executor_started :: event where
  "executor_started =
     Display Debug1 ''Checking if performing an Auth Restart is fully supported...'' []"

text \<open>
  The five conditions of the gate in the order of the specification, and what
  evaluating each one causes.
\<close>

definition gate_conditions :: "world \<Rightarrow> bool list" where
  "gate_conditions w =
     [tuple_ge (getOsVersion w) [10, 8],
      truthy (pref w ''PerformAuthRestarts''),
      fst (filevault_is_active w) = Inr True,
      fst (supports_auth_restart w) = Inr True,
      has_credential w]"

definition gate_steps :: "world \<Rightarrow> event list list" where
  "gate_steps w =
     [[GetOsVersion],
      [Pref ''PerformAuthRestarts''],
      snd (filevault_is_active w),
      snd (supports_auth_restart w),
      snd (get_auth_restart_key w)]"

text \<open>Short-circuit evaluation: the steps up to and including the first false condition.\<close>

fun evaluated :: "bool list \<Rightarrow> 'a list list \<Rightarrow> 'a list" where
  "evaluated (c # cs) (s # ss) = s @ (if c then evaluated cs ss else [])"
| "evaluated cs ss = []"

text \<open>
  The restricted eligibility check of the top-level flow as the specification words it,
  the events of its evaluation, whether an exception ends it, and the events of the
  fallback.
\<close>

definition restricted_eligibility :: "world \<Rightarrow> bool" where
  "restricted_eligibility w =
     (truthy (pref w ''PerformAuthRestarts'')
      \<and> truthy (pref w ''RecoveryKeyFile'')
      \<and> tuple_ge (getOsVersion w) [10, 8]
      \<and> fst (filevault_is_active w) = Inr True)"

definition deciding_events :: "world \<Rightarrow> event list" where
  "deciding_events w =
     [Display Info ''Restarting now.'' [], GetOsVersion, Pref ''PerformAuthRestarts'']
     @ (if truthy (pref w ''PerformAuthRestarts'')
        then Pref ''RecoveryKeyFile'' #
          (if truthy (pref w ''RecoveryKeyFile'') \<and> tuple_ge (getOsVersion w) [10, 8]
           then snd (filevault_is_active w) else [])
        else [])"

definition deciding_raises :: "world \<Rightarrow> bool" where
  "deciding_raises w =
     (truthy (pref w ''PerformAuthRestarts'')
      \<and> truthy (pref w ''RecoveryKeyFile'')
      \<and> tuple_ge (getOsVersion w) [10, 8]
      \<and> isl (fst (filevault_is_active w)))"

definition fallback_events :: "event list" where
  "fallback_events =
     [Display Debug1 ''Performing a regular restart...'' [], Call shutdown_cmd]"

subsection \<open>Example worlds\<close>

text \<open>
  A machine on which everything is in place: macOS 10.14.0, both preferences set,
  FileVault active, authorized restart supported, a readable credential file, and a
  helper that restarts without writing to standard error.
\<close>

definition world_ready :: world where
  "world_ready =
    \<lparr> getOsVersion = [10, 14, 0],
      pref = (\<lambda>name. if name = ''PerformAuthRestarts'' then PBool True
                     else if name = ''RecoveryKeyFile'' then PStr ''/var/root/key.plist''
                     else PNone),
      check_output = (\<lambda>argv. Returned (''true'' @ [CHR 0x0A])),
      readPlist = (\<lambda>path. Dictionary
                     [''RecoveryKey'' \<mapsto> PlString (unicode_of ''  ABCD-1234  '')]),
      writePlistToString = (\<lambda>kvs. ''<plist><dict>...</dict></plist>''),
      communicate = (\<lambda>argv inp. ([], [])) \<rparr>"

text \<open>Variations of the preferences and of the credential file.\<close>

definition world_no_pref :: world where
  "world_no_pref = world_ready \<lparr> pref := (\<lambda>name. PNone) \<rparr>"

definition world_bad_plist :: world where
  "world_bad_plist =
     world_ready \<lparr> readPlist := (\<lambda>path. NSPropertyListSerializationException) \<rparr>"

definition world_no_key :: world where
  "world_no_key = world_ready \<lparr> readPlist := (\<lambda>path. Dictionary Map.empty) \<rparr>"

definition world_key_not_string :: world where
  "world_key_not_string =
     world_ready \<lparr> readPlist := (\<lambda>path. Dictionary [''RecoveryKey'' \<mapsto> PlNotString]) \<rparr>"

definition world_plist_not_dict :: world where
  "world_plist_not_dict = world_ready \<lparr> readPlist := (\<lambda>path. NotDictionary) \<rparr>"

text \<open>Variations of the commands, of the helper's reply and of the OS version.\<close>

definition world_filevault_off :: world where
  "world_filevault_off =
     world_ready \<lparr> check_output :=
       (\<lambda>argv. CalledProcessError (''false'' @ [CHR 0x0A])) \<rparr>"

definition world_cannot_launch :: world where
  "world_cannot_launch = world_ready \<lparr> check_output := (\<lambda>argv. CannotLaunch) \<rparr>"

definition world_unsupported :: world where
  "world_unsupported =
     world_ready \<lparr> check_output :=
       (\<lambda>argv. if argv = [''/usr/bin/fdesetup'', ''supportsauthrestart'']
                then Returned (''false'' @ [CHR 0x0A])
                else Returned (''true'' @ [CHR 0x0A])) \<rparr>"

definition world_helper_fails :: world where
  "world_helper_fails =
     world_ready \<lparr> communicate := (\<lambda>argv inp. ([], ''Error: Unable to restart.'')) \<rparr>"

definition world_restarting_1013 :: world where
  "world_restarting_1013 =
     world_ready \<lparr> getOsVersion := [10, 13, 0],
                   communicate := (\<lambda>argv inp. ([], ''System is being restarted.'')) \<rparr>"

definition world_restarting_1011 :: world where
  "world_restarting_1011 =
     world_ready \<lparr> getOsVersion := [10, 11, 0],
                   communicate := (\<lambda>argv inp. ([], ''System is being restarted.'')) \<rparr>"

definition world_old_os :: world where
  "world_old_os = world_ready \<lparr> getOsVersion := [10, 7, 5] \<rparr>"

section \<open>Properties\<close>

lemmas probe_defs =
  filevault_is_active_def supports_auth_restart_def get_auth_restart_key_def
  Let_def strip_def isspace_def unicode_of_def credential_def has_credential_def
  helper_stderr_def helper_input_def
  isactive_cmd_def supportsauthrestart_cmd_def authrestart_cmd_def shutdown_cmd_def

subsection \<open>Strings\<close>

lemma startswith_iff: "startswith hay needle \<longleftrightarrow> (\<exists>s. hay = needle @ s)"
  by (induction hay needle rule: startswith.induct) auto

text \<open>\<open>str_in\<close> is the substring relation.\<close>

lemma str_in_iff: "str_in needle hay \<longleftrightarrow> (\<exists>p s. hay = p @ needle @ s)"
proof (induction hay)
  case Nil
  then show ?case by auto
next
  case (Cons h hs)
  show ?case
  proof
    assume "str_in needle (h # hs)"
    then consider "startswith (h # hs) needle" | "str_in needle hs" by auto
    then show "\<exists>p s. h # hs = p @ needle @ s"
    proof cases
      case 1
      then obtain s where "h # hs = needle @ s" by (auto simp: startswith_iff)
      then have "h # hs = [] @ needle @ s" by simp
      then show ?thesis by blast
    next
      case 2
      then obtain p s where "hs = p @ needle @ s" using Cons.IH by blast
      then have "h # hs = (h # p) @ needle @ s" by simp
      then show ?thesis by blast
    qed
  next
    assume "\<exists>p s. h # hs = p @ needle @ s"
    then obtain p s where ps: "h # hs = p @ needle @ s" by blast
    show "str_in needle (h # hs)"
    proof (cases p)
      case Nil
      with ps have "startswith (h # hs) needle" by (auto simp: startswith_iff)
      then show ?thesis by simp
    next
      case (Cons a p')
      with ps have "hs = p' @ needle @ s" by simp
      then have "str_in needle hs" using Cons.IH by blast
      then show ?thesis by simp
    qed
  qed
qed

lemma drop_trailing: "m = rev (dropWhile P (rev m)) @ rev (takeWhile P (rev m))"
  by (metis rev_append rev_rev_ident takeWhile_dropWhile_id)

text \<open>\<open>strip\<close> removes whitespace at both ends, and only that.\<close>

lemma strip_decomp:
  "\<exists>l r. v = l @ strip v @ r \<and> list_all isspace l \<and> list_all isspace r"
proof -
  define m where "m = dropWhile isspace v"
  have v: "v = takeWhile isspace v @ m"
    by (simp add: m_def)
  have m: "m = strip v @ rev (takeWhile isspace (rev m))"
    using drop_trailing [of m isspace] by (simp add: strip_def m_def)
  have l: "list_all isspace (takeWhile isspace v)"
    by (simp add: list_all_iff) (meson set_takeWhileD)
  have r: "list_all isspace (rev (takeWhile isspace (rev m)))"
    by (simp add: list_all_iff) (meson set_takeWhileD)
  from v m have "v = takeWhile isspace v @ strip v @ rev (takeWhile isspace (rev m))"
    by simp
  with l r show ?thesis by blast
qed

lemma strip_no_leading_space: "strip v = c # s \<Longrightarrow> \<not> isspace c"
proof -
  assume a: "strip v = c # s"
  define m where "m = dropWhile isspace v"
  have "m = strip v @ rev (takeWhile isspace (rev m))"
    using drop_trailing [of m isspace] by (simp add: strip_def m_def)
  with a have "\<exists>t. m = c # t" by (metis append_Cons)
  then obtain t where "m = c # t" by blast
  then have "m \<noteq> []" and "hd m = c" by simp_all
  then show "\<not> isspace c"
    unfolding m_def using hd_dropWhile [of isspace v] by blast
qed

lemma strip_no_trailing_space: "strip v = s @ [c] \<Longrightarrow> \<not> isspace c"
proof -
  assume a: "strip v = s @ [c]"
  define m where "m = dropWhile isspace v"
  from a have "rev (strip v) = c # rev s" by simp
  then have "dropWhile isspace (rev m) = c # rev s"
    by (simp add: strip_def m_def)
  then have "dropWhile isspace (rev m) \<noteq> []" and "hd (dropWhile isspace (rev m)) = c"
    by simp_all
  then show "\<not> isspace c"
    using hd_dropWhile [of isspace "rev m"] by blast
qed

subsection \<open>Events of the probes\<close>

lemma mechanisms_append: "mechanisms (s @ t) = mechanisms s @ mechanisms t"
  by (induction s rule: mechanisms.induct) simp_all

lemma spawns_append: "spawns (s @ t) = spawns s @ spawns t"
  by (induction s rule: spawns.induct) simp_all

lemma displayed_append: "displayed l (s @ t) = displayed l s @ displayed l t"
  by (induction l s rule: displayed.induct) simp_all

lemma filevault_spawns: "spawns (snd (filevault_is_active w)) = [isactive_cmd]"
  by (simp add: filevault_is_active_def isactive_cmd_def Let_def split: completed.split)

lemma filevault_mechanisms: "mechanisms (snd (filevault_is_active w)) = []"
  by (simp add: filevault_is_active_def Let_def split: completed.split)

lemma supports_spawns: "spawns (snd (supports_auth_restart w)) = [supportsauthrestart_cmd]"
  by (simp add: supports_auth_restart_def supportsauthrestart_cmd_def Let_def
      split: completed.split)

lemma supports_mechanisms: "mechanisms (snd (supports_auth_restart w)) = []"
  by (simp add: supports_auth_restart_def Let_def split: completed.split)

lemma supports_no_error: "displayed Error (snd (supports_auth_restart w)) = []"
  by (simp add: supports_auth_restart_def Let_def split: completed.split)

lemma key_spawns: "spawns (snd (get_auth_restart_key w)) = []"
  by (simp add: get_auth_restart_key_def Let_def
      split: plist_read.split option.split plvalue.split)

lemma key_mechanisms: "mechanisms (snd (get_auth_restart_key w)) = []"
  by (simp add: get_auth_restart_key_def Let_def
      split: plist_read.split option.split plvalue.split)

lemma key_no_error:
  "fst (get_auth_restart_key w) = Inr k \<Longrightarrow> k \<noteq> [] \<Longrightarrow>
   displayed Error (snd (get_auth_restart_key w)) = []"
  by (auto simp add: get_auth_restart_key_def Let_def
      split: plist_read.splits option.splits plvalue.splits if_splits)

lemma filevault_events:
  "e \<in> set (snd (filevault_is_active w)) \<Longrightarrow>
   (\<exists>m. e = Display Warning m []) \<or> e = Display Debug1 ''Checking if FileVault is enabled...'' []
   \<or> e = CheckOutput isactive_cmd"
  by (auto simp add: filevault_is_active_def isactive_cmd_def Let_def
      split: completed.splits if_splits)

lemma supports_events:
  "e \<in> set (snd (supports_auth_restart w)) \<Longrightarrow>
   (\<exists>l m. e = Display l m []) \<or> e = CheckOutput supportsauthrestart_cmd"
  by (auto simp add: supports_auth_restart_def supportsauthrestart_cmd_def Let_def
      split: completed.splits if_splits)

lemma key_events:
  "e \<in> set (snd (get_auth_restart_key w)) \<Longrightarrow>
   (\<exists>l m a. e = Display l m a) \<or> e = Pref ''RecoveryKeyFile''
   \<or> e = ReadPlist (pref w ''RecoveryKeyFile'')"
  by (auto simp add: get_auth_restart_key_def Let_def
      split: plist_read.splits option.splits plvalue.splits if_splits)

lemma supports_no_osversion: "GetOsVersion \<notin> set (snd (supports_auth_restart w))"
  using supports_events [of GetOsVersion w] by auto

lemma key_no_osversion: "GetOsVersion \<notin> set (snd (get_auth_restart_key w))"
  using key_events [of GetOsVersion w] by auto

lemma supports_osversion_indep:
  "supports_auth_restart (w\<lparr>getOsVersion := v\<rparr>) = supports_auth_restart w"
  by (simp add: supports_auth_restart_def Let_def)

lemma key_osversion_indep:
  "get_auth_restart_key (w\<lparr>getOsVersion := v\<rparr>) = get_auth_restart_key w"
  by (simp add: get_auth_restart_key_def Let_def)

lemma has_credential_iff:
  "has_credential w \<longleftrightarrow> (\<exists>k. fst (get_auth_restart_key w) = Inr k \<and> k \<noteq> [])"
  by (auto simp add: has_credential_def split: sum.splits)

lemma credential_found: "fst (get_auth_restart_key w) = Inr k \<Longrightarrow> credential w = k"
  by (simp add: credential_def)

subsection \<open>The ways through the executor\<close>

lemma perform_probe_raises:
  "fst (supports_auth_restart w) = Inl e \<Longrightarrow>
   perform_auth_restart w = (Inl e, executor_started # snd (supports_auth_restart w))"
  by (simp add: perform_auth_restart_def executor_started_def Let_def case_prod_beta)

lemma perform_refused:
  "fst (supports_auth_restart w) = Inr False \<Longrightarrow>
   perform_auth_restart w =
     (Inr False,
      [Display Debug1 ''Checking if performing an Auth Restart is fully supported...'' []]
      @ snd (supports_auth_restart w)
      @ [Display Warning msg_unsupported []])"
  by (simp add: perform_auth_restart_def msg_unsupported_def Let_def case_prod_beta)

lemma perform_key_raises:
  "fst (supports_auth_restart w) = Inr True \<Longrightarrow> fst (get_auth_restart_key w) = Inl e \<Longrightarrow>
   perform_auth_restart w =
     (Inl e,
      [Display Debug1 ''Checking if performing an Auth Restart is fully supported...'' []]
      @ snd (supports_auth_restart w)
      @ [Display Debug1 ''Machine supports Authorized Restarts...'' []]
      @ snd (get_auth_restart_key w))"
  by (simp add: perform_auth_restart_def Let_def case_prod_beta)

lemma perform_no_key:
  "fst (supports_auth_restart w) = Inr True \<Longrightarrow> fst (get_auth_restart_key w) = Inr [] \<Longrightarrow>
   perform_auth_restart w =
     (Inr False,
      [Display Debug1 ''Checking if performing an Auth Restart is fully supported...'' []]
      @ snd (supports_auth_restart w)
      @ [Display Debug1 ''Machine supports Authorized Restarts...'' []]
      @ snd (get_auth_restart_key w))"
  by (simp add: perform_auth_restart_def Let_def case_prod_beta)

lemma perform_helper:
  "fst (supports_auth_restart w) = Inr True \<Longrightarrow>
   fst (get_auth_restart_key w) = Inr k \<Longrightarrow> k \<noteq> [] \<Longrightarrow>
   perform_auth_restart w =
     (Inr (tuple_ge (getOsVersion w) [10, 12]
             \<and> str_in ''System is being restarted'' (helper_stderr w)
           \<or> helper_stderr w = []),
      [Display Debug1 ''Checking if performing an Auth Restart is fully supported...'' []]
      @ snd (supports_auth_restart w)
      @ [Display Debug1 ''Machine supports Authorized Restarts...'' []]
      @ snd (get_auth_restart_key w)
      @ [WritePlistToString [(''Password'', k)],
         Display Info ''Attempting an Authorized Restart now...'' [],
         Popen authrestart_cmd,
         Communicate (writePlistToString w [(''Password'', k)]),
         GetOsVersion]
      @ (if tuple_ge (getOsVersion w) [10, 12]
              \<and> str_in ''System is being restarted'' (helper_stderr w)
         then []
         else if helper_stderr w \<noteq> [] then [Display Error (helper_stderr w) []]
         else []))"
  by (auto simp add: perform_auth_restart_def helper_stderr_def helper_input_def
      credential_def Let_def case_prod_beta)

lemma perform_starts: "\<exists>t. snd (perform_auth_restart w) = executor_started # t"
  by (simp add: perform_auth_restart_def executor_started_def Let_def case_prod_beta
      split: sum.split)

text \<open>The executor reports success only after the helper has run.\<close>

lemma perform_success_needs_helper:
  assumes "fst (perform_auth_restart w) = Inr True"
  shows "fst (supports_auth_restart w) = Inr True \<and> has_credential w"
proof -
  have s: "fst (supports_auth_restart w) = Inr True"
  proof (cases "fst (supports_auth_restart w)")
    case (Inl e)
    with assms show ?thesis by (simp add: perform_probe_raises)
  next
    case (Inr b)
    with assms show ?thesis by (cases b) (simp_all add: perform_refused)
  qed
  have "has_credential w"
  proof (cases "fst (get_auth_restart_key w)")
    case (Inl e)
    with assms s show ?thesis by (simp add: perform_key_raises)
  next
    case (Inr k)
    with assms s show ?thesis
      by (cases "k = []") (simp_all add: perform_no_key has_credential_def)
  qed
  with s show ?thesis by simp
qed

lemma perform_mechanisms:
  "mechanisms (snd (perform_auth_restart w)) =
     (if fst (supports_auth_restart w) = Inr True \<and> has_credential w
      then [AuthRestartHelper] else [])"
proof (cases "fst (supports_auth_restart w)")
  case (Inl e)
  then show ?thesis
    by (simp add: perform_probe_raises executor_started_def supports_mechanisms)
next
  case (Inr b)
  show ?thesis
  proof (cases b)
    case False
    with Inr show ?thesis
      by (simp add: perform_refused mechanisms_append supports_mechanisms)
  next
    case True
    with Inr have s: "fst (supports_auth_restart w) = Inr True" by simp
    show ?thesis
    proof (cases "fst (get_auth_restart_key w)")
      case (Inl e)
      with s show ?thesis
        by (simp add: perform_key_raises mechanisms_append supports_mechanisms
            key_mechanisms has_credential_def)
    next
      case (Inr k)
      with s show ?thesis
        by (cases "k = []")
           (simp_all add: perform_no_key perform_helper mechanisms_append
              supports_mechanisms key_mechanisms has_credential_def)
    qed
  qed
qed

lemma perform_spawns:
  "fst (supports_auth_restart w) = Inr True \<Longrightarrow>
   fst (get_auth_restart_key w) = Inr k \<Longrightarrow> k \<noteq> [] \<Longrightarrow>
   spawns (snd (perform_auth_restart w)) = [supportsauthrestart_cmd, authrestart_cmd]"
  by (simp add: perform_helper spawns_append supports_spawns key_spawns)

text \<open>Once the helper has run, the executor returns.\<close>

lemma perform_helper_returns:
  "fst (supports_auth_restart w) = Inr True \<Longrightarrow> has_credential w \<Longrightarrow>
   \<exists>b. fst (perform_auth_restart w) = Inr b"
  by (auto simp add: has_credential_iff perform_helper)

subsection \<open>The events of the flow\<close>

lemma flow_events:
  "snd (do_authorized_or_normal_restart w) =
     deciding_events w
     @ (if restricted_eligibility w
        then [Display Debug1 ''Configured to perform AuthRestarts...'' []]
             @ snd (perform_auth_restart w)
             @ (if fst (perform_auth_restart w) = Inr False
                then [Display Warning
                        ''Authorized Restart failed. Performing normal restart...'' []]
                     @ fallback_events
                else [])
        else if deciding_raises w then [] else fallback_events)"
  by (auto simp add: do_authorized_or_normal_restart_def deciding_events_def
      restricted_eligibility_def deciding_raises_def fallback_events_def Let_def
      case_prod_beta split: sum.splits)

lemma flow_returns:
  "fst (do_authorized_or_normal_restart w) = Inr () \<longleftrightarrow>
     \<not> deciding_raises w
     \<and> \<not> (restricted_eligibility w \<and> isl (fst (perform_auth_restart w)))"
  by (auto simp add: do_authorized_or_normal_restart_def
      restricted_eligibility_def deciding_raises_def Let_def
      case_prod_beta split: sum.splits)

lemma deciding_mechanisms: "mechanisms (deciding_events w) = []"
  by (simp add: deciding_events_def mechanisms_append filevault_mechanisms)

lemma deciding_no_executor: "executor_started \<notin> set (deciding_events w)"
  using filevault_events [of executor_started w]
  by (auto simp add: deciding_events_def executor_started_def)

lemma deciding_spawns:
  "spawns (deciding_events w) =
     (if truthy (pref w ''PerformAuthRestarts'') \<and> truthy (pref w ''RecoveryKeyFile'')
          \<and> tuple_ge (getOsVersion w) [10, 8]
      then [isactive_cmd] else [])"
  by (simp add: deciding_events_def spawns_append filevault_spawns)

lemma deciding_no_capability_probe:
  "CheckOutput supportsauthrestart_cmd \<notin> set (deciding_events w)"
  using filevault_events [of "CheckOutput supportsauthrestart_cmd" w]
  by (auto simp add: deciding_events_def isactive_cmd_def supportsauthrestart_cmd_def)

lemma deciding_no_lookup: "ReadPlist p \<notin> set (deciding_events w)"
  using filevault_events [of "ReadPlist p" w]
  by (auto simp add: deciding_events_def)

lemma flow_mechanisms:
  "mechanisms (snd (do_authorized_or_normal_restart w)) =
     (if restricted_eligibility w \<and> fst (supports_auth_restart w) = Inr True
           \<and> has_credential w
      then (if fst (perform_auth_restart w) = Inr True then [AuthRestartHelper]
            else [AuthRestartHelper, PlainRestart])
      else if fst (do_authorized_or_normal_restart w) = Inr () then [PlainRestart]
      else [])"
proof (cases "restricted_eligibility w")
  case False
  then show ?thesis
    by (simp add: flow_events flow_returns mechanisms_append deciding_mechanisms
        fallback_events_def)
next
  case True
  note el = True
  show ?thesis
  proof (cases "fst (supports_auth_restart w) = Inr True \<and> has_credential w")
    case True
    then obtain b where b: "fst (perform_auth_restart w) = Inr b"
      using perform_helper_returns [of w] by blast
    show ?thesis
      using el True
      by (cases b)
         (simp_all add: b flow_events mechanisms_append deciding_mechanisms
            perform_mechanisms fallback_events_def)
  next
    case False
    have nt: "fst (perform_auth_restart w) \<noteq> Inr True"
      using False perform_success_needs_helper [of w] by blast
    have dr: "\<not> deciding_raises w"
      using el by (simp add: restricted_eligibility_def deciding_raises_def)
    show ?thesis
    proof (cases "fst (perform_auth_restart w)")
      case (Inl e)
      with el False dr show ?thesis
        by (simp add: flow_events flow_returns mechanisms_append deciding_mechanisms
            perform_mechanisms)
    next
      case (Inr b)
      with nt have "fst (perform_auth_restart w) = Inr False" by (cases b) simp_all
      with el False dr show ?thesis
        by (simp add: flow_events flow_returns mechanisms_append deciding_mechanisms
            perform_mechanisms fallback_events_def)
    qed
  qed
qed

subsection \<open>RestartDecisionFlow: the restart mechanisms of a call\<close>

text \<open>
  C1. The claim that every call of \<open>do_authorized_or_normal_restart\<close> invokes exactly
  one restart mechanism, never both and never neither, fails. When the helper is
  started and leaves an error on standard error, the call invokes the helper and then
  the plain restart command. When a probe command cannot be launched, the
  \<^verbatim>\<open>OSError\<close> leaves the flow before either mechanism is invoked.
\<close>

theorem restart_mechanisms_counterexample:
  "mechanisms (snd (do_authorized_or_normal_restart world_helper_fails)) =
     [AuthRestartHelper, PlainRestart]
   \<and> length (mechanisms (snd (do_authorized_or_normal_restart world_helper_fails))) \<noteq> 1
   \<and> do_authorized_or_normal_restart world_cannot_launch =
       (Inl OSError,
        [Display Info ''Restarting now.'' [], GetOsVersion, Pref ''PerformAuthRestarts'',
         Pref ''RecoveryKeyFile'',
         Display Debug1 ''Checking if FileVault is enabled...'' [],
         CheckOutput [''/usr/bin/fdesetup'', ''isactive'']])
   \<and> length (mechanisms (snd (do_authorized_or_normal_restart world_cannot_launch))) \<noteq> 1"
  by (simp add: do_authorized_or_normal_restart_def perform_auth_restart_def
      filevault_is_active_def supports_auth_restart_def get_auth_restart_key_def
      world_helper_fails_def world_cannot_launch_def world_ready_def Let_def strip_def
      isspace_def unicode_of_def authrestart_cmd_def shutdown_cmd_def)

text \<open>
  C1, as the code has it. No call invokes a restart mechanism twice. Every call that
  returns has invoked at least one: the helper alone when the executor reports
  success; the helper and then the plain restart command when the helper was started
  and the executor reports failure; the plain restart command alone otherwise. In a
  call that returns, the plain restart command is invoked exactly when no authorized
  restart was reported successful.
\<close>

theorem restart_mechanisms_per_call:
  "distinct (mechanisms (snd (do_authorized_or_normal_restart w)))
   \<and> (fst (do_authorized_or_normal_restart w) = Inr () \<longrightarrow>
        mechanisms (snd (do_authorized_or_normal_restart w)) =
          (if restricted_eligibility w \<and> fst (supports_auth_restart w) = Inr True
                \<and> has_credential w
           then (if fst (perform_auth_restart w) = Inr True then [AuthRestartHelper]
                 else [AuthRestartHelper, PlainRestart])
           else [PlainRestart])
        \<and> 1 \<le> length (mechanisms (snd (do_authorized_or_normal_restart w)))
        \<and> (PlainRestart \<in> set (mechanisms (snd (do_authorized_or_normal_restart w))) \<longleftrightarrow>
             \<not> (restricted_eligibility w \<and> fst (perform_auth_restart w) = Inr True)))"
  using perform_success_needs_helper [of w]
  by (auto simp add: flow_mechanisms)

theorem restart_mechanisms_per_call_witness:
  "fst (do_authorized_or_normal_restart world_ready) = Inr ()
   \<and> mechanisms (snd (do_authorized_or_normal_restart world_ready)) = [AuthRestartHelper]
   \<and> fst (do_authorized_or_normal_restart world_no_pref) = Inr ()
   \<and> mechanisms (snd (do_authorized_or_normal_restart world_no_pref)) = [PlainRestart]
   \<and> fst (do_authorized_or_normal_restart world_no_key) = Inr ()
   \<and> mechanisms (snd (do_authorized_or_normal_restart world_no_key)) = [PlainRestart]"
proof -
  have r: "fst (do_authorized_or_normal_restart world_ready) = Inr ()"
    and p: "fst (do_authorized_or_normal_restart world_no_pref) = Inr ()"
    and k: "fst (do_authorized_or_normal_restart world_no_key) = Inr ()"
    by (simp_all add: flow_returns restricted_eligibility_def deciding_raises_def
        perform_auth_restart_def world_no_key_def world_no_pref_def world_ready_def
        probe_defs)
  from r p k restart_mechanisms_per_call [of world_ready]
    restart_mechanisms_per_call [of world_no_pref]
    restart_mechanisms_per_call [of world_no_key]
  show ?thesis
    by (simp add: world_no_key_def world_no_pref_def world_ready_def probe_defs
        restricted_eligibility_def perform_auth_restart_def)
qed

subsection \<open>AuthorizedRestartExecutor: the outcome of the helper\<close>

text \<open>
  C2. Once the helper has run, \<open>perform_auth_restart\<close> classifies its outcome in this
  order: success if the OS version is at least (10, 12) and standard error contains
  \<^verbatim>\<open>System is being restarted\<close>; otherwise failure if standard error is not empty,
  and then standard error is the one error message logged, as it is; otherwise
  success. With standard error \<^verbatim>\<open>System is being restarted.\<close> it succeeds on
  (10, 13, 0) and fails on (10, 11, 0); with empty standard error it succeeds on every
  OS version.
\<close>

theorem perform_auth_restart_classification:
  assumes "fst (supports_auth_restart w) = Inr True"
    and "fst (get_auth_restart_key w) = Inr k" and "k \<noteq> []"
  shows "fst (perform_auth_restart w) =
           Inr (if tuple_ge (getOsVersion w) [10, 12]
                     \<and> str_in ''System is being restarted'' (helper_stderr w) then True
                else if helper_stderr w \<noteq> [] then False
                else True)
         \<and> displayed Error (snd (perform_auth_restart w)) =
             (if fst (perform_auth_restart w) = Inr True then []
              else [(helper_stderr w, [])])
         \<and> (getOsVersion w = [10, 13, 0]
              \<and> helper_stderr w = ''System is being restarted.''
              \<longrightarrow> fst (perform_auth_restart w) = Inr True)
         \<and> (getOsVersion w = [10, 11, 0]
              \<and> helper_stderr w = ''System is being restarted.''
              \<longrightarrow> fst (perform_auth_restart w) = Inr False)
         \<and> (helper_stderr w = [] \<longrightarrow> fst (perform_auth_restart w) = Inr True)
         \<and> helper_stderr w =
             snd (communicate w authrestart_cmd (writePlistToString w [(''Password'', k)]))"
proof -
  note p = perform_helper [OF assms]
  have r: "fst (perform_auth_restart w) =
           Inr (if tuple_ge (getOsVersion w) [10, 12]
                     \<and> str_in ''System is being restarted'' (helper_stderr w) then True
                else if helper_stderr w \<noteq> [] then False
                else True)"
    by (simp add: p)
  have e: "displayed Error (snd (perform_auth_restart w)) =
             (if fst (perform_auth_restart w) = Inr True then []
              else [(helper_stderr w, [])])"
    by (simp add: p displayed_append supports_no_error key_no_error [OF assms(2,3)])
  have a: "getOsVersion w = [10, 13, 0] \<and> helper_stderr w = ''System is being restarted.''
              \<longrightarrow> fst (perform_auth_restart w) = Inr True"
    by (simp add: r)
  have b: "getOsVersion w = [10, 11, 0] \<and> helper_stderr w = ''System is being restarted.''
              \<longrightarrow> fst (perform_auth_restart w) = Inr False"
    by (simp add: r)
  have c: "helper_stderr w = [] \<longrightarrow> fst (perform_auth_restart w) = Inr True"
    by (simp add: r)
  have h: "helper_stderr w =
      snd (communicate w authrestart_cmd (writePlistToString w [(''Password'', k)]))"
    by (simp add: helper_stderr_def helper_input_def credential_found [OF assms(2)])
  from r e a b c h show ?thesis by blast
qed

theorem perform_auth_restart_classification_witness:
  "fst (perform_auth_restart world_restarting_1013) = Inr True
   \<and> fst (perform_auth_restart world_restarting_1011) = Inr False
   \<and> displayed Error (snd (perform_auth_restart world_restarting_1011)) =
       [(''System is being restarted.'', [])]
   \<and> fst (perform_auth_restart world_old_os) = Inr True"
proof -
  have a: "fst (perform_auth_restart world_restarting_1013) = Inr True"
    using perform_auth_restart_classification
      [of world_restarting_1013 "unicode_of ''ABCD-1234''"]
    by (simp add: world_restarting_1013_def world_ready_def probe_defs)
  have b: "fst (perform_auth_restart world_restarting_1011) = Inr False
   \<and> displayed Error (snd (perform_auth_restart world_restarting_1011)) =
       [(''System is being restarted.'', [])]"
    using perform_auth_restart_classification
      [of world_restarting_1011 "unicode_of ''ABCD-1234''"]
    by (simp add: world_restarting_1011_def world_ready_def probe_defs)
  have c: "fst (perform_auth_restart world_old_os) = Inr True"
    using perform_auth_restart_classification
      [of world_old_os "unicode_of ''ABCD-1234''"]
    by (simp add: world_old_os_def world_ready_def probe_defs)
  from a b c show ?thesis by simp
qed

subsection \<open>PreconditionGate\<close>

text \<open>
  C3. \<open>can_attempt_auth_restart\<close> returns \<^verbatim>\<open>True\<close> (and a true value at all) if and
  only if all five conditions hold: OS version at least (10, 8), the preference
  \<^verbatim>\<open>PerformAuthRestarts\<close>, FileVault active, authorized restart supported, a
  non-empty credential. They are evaluated in this order and evaluation stops at the
  first that is false: the events of the gate are those of the conditions up to that
  one, so a later probe starts no process and the credential lookup reads nothing.
\<close>

theorem can_attempt_auth_restart_iff:
  "(fst (can_attempt_auth_restart w) = Inr (PBool True) \<longleftrightarrow>
      list_all id (gate_conditions w))
   \<and> ((\<exists>v. fst (can_attempt_auth_restart w) = Inr v \<and> truthy v) \<longleftrightarrow>
      list_all id (gate_conditions w))
   \<and> (list_all id (gate_conditions w) \<longleftrightarrow>
        tuple_ge (getOsVersion w) [10, 8]
        \<and> truthy (pref w ''PerformAuthRestarts'')
        \<and> fst (filevault_is_active w) = Inr True
        \<and> fst (supports_auth_restart w) = Inr True
        \<and> (\<exists>k. fst (get_auth_restart_key w) = Inr k \<and> k \<noteq> []))
   \<and> snd (can_attempt_auth_restart w) = evaluated (gate_conditions w) (gate_steps w)
   \<and> spawns (snd (can_attempt_auth_restart w)) =
        (if tuple_ge (getOsVersion w) [10, 8] \<and> truthy (pref w ''PerformAuthRestarts'')
         then isactive_cmd #
           (if fst (filevault_is_active w) = Inr True then [supportsauthrestart_cmd]
            else [])
         else [])
   \<and> (Pref ''RecoveryKeyFile'' \<in> set (snd (can_attempt_auth_restart w)) \<longleftrightarrow>
        tuple_ge (getOsVersion w) [10, 8]
        \<and> truthy (pref w ''PerformAuthRestarts'')
        \<and> fst (filevault_is_active w) = Inr True
        \<and> fst (supports_auth_restart w) = Inr True)"
proof -
  have res: "fst (can_attempt_auth_restart w) =
    (if \<not> tuple_ge (getOsVersion w) [10, 8] then Inr (PBool False)
     else if \<not> truthy (pref w ''PerformAuthRestarts'')
     then Inr (pref w ''PerformAuthRestarts'')
     else (case fst (filevault_is_active w) of
             Inl e \<Rightarrow> Inl e
           | Inr a \<Rightarrow>
               if \<not> a then Inr (PBool False)
               else (case fst (supports_auth_restart w) of
                       Inl e \<Rightarrow> Inl e
                     | Inr s \<Rightarrow>
                         if \<not> s then Inr (PBool False)
                         else (case fst (get_auth_restart_key w) of
                                 Inl e \<Rightarrow> Inl e
                               | Inr k \<Rightarrow> Inr (PBool (k \<noteq> []))))))"
    by (simp add: can_attempt_auth_restart_def Let_def case_prod_beta split: sum.split)
  have tr: "snd (can_attempt_auth_restart w) = evaluated (gate_conditions w) (gate_steps w)"
    by (auto simp add: can_attempt_auth_restart_def gate_conditions_def gate_steps_def
        has_credential_def Let_def case_prod_beta split: sum.split)
  have c3: "list_all id (gate_conditions w) \<longleftrightarrow>
        tuple_ge (getOsVersion w) [10, 8]
        \<and> truthy (pref w ''PerformAuthRestarts'')
        \<and> fst (filevault_is_active w) = Inr True
        \<and> fst (supports_auth_restart w) = Inr True
        \<and> (\<exists>k. fst (get_auth_restart_key w) = Inr k \<and> k \<noteq> [])"
    by (simp add: gate_conditions_def has_credential_iff)
  have c1: "fst (can_attempt_auth_restart w) = Inr (PBool True) \<longleftrightarrow>
      list_all id (gate_conditions w)"
    unfolding res c3
    by (cases "pref w ''PerformAuthRestarts''") (auto split: sum.splits)
  have c2: "(\<exists>v. fst (can_attempt_auth_restart w) = Inr v \<and> truthy v) \<longleftrightarrow>
      list_all id (gate_conditions w)"
    unfolding res c3 by (auto split: sum.splits)
  have fv_no: "Pref ''RecoveryKeyFile'' \<notin> set (snd (filevault_is_active w))"
    using filevault_events [of "Pref ''RecoveryKeyFile''" w] by auto
  have sup_no: "Pref ''RecoveryKeyFile'' \<notin> set (snd (supports_auth_restart w))"
    using supports_events [of "Pref ''RecoveryKeyFile''" w] by auto
  have key_yes: "Pref ''RecoveryKeyFile'' \<in> set (snd (get_auth_restart_key w))"
    by (simp add: get_auth_restart_key_def Let_def
        split: plist_read.split option.split plvalue.split)
  have c5: "spawns (snd (can_attempt_auth_restart w)) =
        (if tuple_ge (getOsVersion w) [10, 8] \<and> truthy (pref w ''PerformAuthRestarts'')
         then isactive_cmd #
           (if fst (filevault_is_active w) = Inr True then [supportsauthrestart_cmd]
            else [])
         else [])"
    unfolding tr
    by (simp add: gate_conditions_def gate_steps_def spawns_append filevault_spawns
        supports_spawns key_spawns)
  have c6: "Pref ''RecoveryKeyFile'' \<in> set (snd (can_attempt_auth_restart w)) \<longleftrightarrow>
        tuple_ge (getOsVersion w) [10, 8]
        \<and> truthy (pref w ''PerformAuthRestarts'')
        \<and> fst (filevault_is_active w) = Inr True
        \<and> fst (supports_auth_restart w) = Inr True"
    unfolding tr using fv_no sup_no key_yes
    by (simp add: gate_conditions_def gate_steps_def)
  from c1 c2 c3 tr c5 c6 show ?thesis by blast
qed

theorem can_attempt_auth_restart_iff_witness:
  "fst (can_attempt_auth_restart world_ready) = Inr (PBool True)
   \<and> fst (can_attempt_auth_restart world_unsupported) \<noteq> Inr (PBool True)
   \<and> spawns (snd (can_attempt_auth_restart world_unsupported)) =
       [isactive_cmd, supportsauthrestart_cmd]
   \<and> Pref ''RecoveryKeyFile'' \<notin> set (snd (can_attempt_auth_restart world_unsupported))
   \<and> snd (can_attempt_auth_restart world_no_pref) =
       [GetOsVersion, Pref ''PerformAuthRestarts'']"
  using can_attempt_auth_restart_iff [of world_ready]
    can_attempt_auth_restart_iff [of world_unsupported]
    can_attempt_auth_restart_iff [of world_no_pref]
  by (simp add: world_no_pref_def world_ready_def world_unsupported_def probe_defs
      gate_conditions_def gate_steps_def)

subsection \<open>RestartDecisionFlow: end to end\<close>

text \<open>
  C4. With \<^verbatim>\<open>PerformAuthRestarts\<close> true, \<^verbatim>\<open>RecoveryKeyFile\<close> set, OS version
  (10, 14, 0), FileVault active, authorized restart supported and a non-empty
  credential, the executor returns, and: if it succeeds, the flow invokes the
  authorized-restart helper once and the plain restart command not at all; if it
  fails, the flow invokes the helper once and then the plain restart command once.
\<close>

theorem restart_flow_end_to_end:
  assumes "pref w ''PerformAuthRestarts'' = PBool True"
    and "truthy (pref w ''RecoveryKeyFile'')"
    and "getOsVersion w = [10, 14, 0]"
    and "fst (filevault_is_active w) = Inr True"
    and "fst (supports_auth_restart w) = Inr True"
    and "fst (get_auth_restart_key w) = Inr k" and "k \<noteq> []"
  shows "(fst (perform_auth_restart w) = Inr True
          \<or> fst (perform_auth_restart w) = Inr False)
         \<and> (fst (perform_auth_restart w) = Inr True \<longrightarrow>
            mechanisms (snd (do_authorized_or_normal_restart w)) = [AuthRestartHelper]
            \<and> spawns (snd (do_authorized_or_normal_restart w)) =
                [isactive_cmd, supportsauthrestart_cmd, authrestart_cmd])
         \<and> (fst (perform_auth_restart w) = Inr False \<longrightarrow>
            mechanisms (snd (do_authorized_or_normal_restart w)) =
                [AuthRestartHelper, PlainRestart]
            \<and> spawns (snd (do_authorized_or_normal_restart w)) =
                [isactive_cmd, supportsauthrestart_cmd, authrestart_cmd, shutdown_cmd])"
proof -
  have el: "restricted_eligibility w"
    using assms by (simp add: restricted_eligibility_def)
  have hc: "has_credential w"
    using assms(6,7) by (simp add: has_credential_def)
  obtain b where b: "fst (perform_auth_restart w) = Inr b"
    using perform_helper_returns [OF assms(5) hc] by blast
  have m: "mechanisms (snd (do_authorized_or_normal_restart w)) =
      (if fst (perform_auth_restart w) = Inr True then [AuthRestartHelper]
       else [AuthRestartHelper, PlainRestart])"
    using el assms(5) hc by (simp add: flow_mechanisms)
  have d: "spawns (deciding_events w) = [isactive_cmd]"
    using assms by (simp add: deciding_spawns)
  have s: "spawns (snd (do_authorized_or_normal_restart w)) =
      [isactive_cmd, supportsauthrestart_cmd, authrestart_cmd]
      @ (if fst (perform_auth_restart w) = Inr False then [shutdown_cmd] else [])"
    using el by (simp add: flow_events spawns_append d perform_spawns [OF assms(5,6,7)]
        fallback_events_def)
  from m s b show ?thesis by (cases b) simp_all
qed

theorem restart_flow_end_to_end_witness:
  "mechanisms (snd (do_authorized_or_normal_restart world_ready)) = [AuthRestartHelper]
   \<and> spawns (snd (do_authorized_or_normal_restart world_ready)) =
       [isactive_cmd, supportsauthrestart_cmd, authrestart_cmd]
   \<and> mechanisms (snd (do_authorized_or_normal_restart world_helper_fails)) =
       [AuthRestartHelper, PlainRestart]
   \<and> spawns (snd (do_authorized_or_normal_restart world_helper_fails)) =
       [isactive_cmd, supportsauthrestart_cmd, authrestart_cmd, shutdown_cmd]"
proof -
  have a: "mechanisms (snd (do_authorized_or_normal_restart world_ready)) =
       [AuthRestartHelper]
   \<and> spawns (snd (do_authorized_or_normal_restart world_ready)) =
       [isactive_cmd, supportsauthrestart_cmd, authrestart_cmd]"
    using restart_flow_end_to_end [of world_ready "unicode_of ''ABCD-1234''"]
    by (simp add: world_ready_def filevault_is_active_def supports_auth_restart_def
        get_auth_restart_key_def perform_auth_restart_def Let_def strip_def isspace_def
        unicode_of_def)
  have b: "mechanisms (snd (do_authorized_or_normal_restart world_helper_fails)) =
       [AuthRestartHelper, PlainRestart]
   \<and> spawns (snd (do_authorized_or_normal_restart world_helper_fails)) =
       [isactive_cmd, supportsauthrestart_cmd, authrestart_cmd, shutdown_cmd]"
    using restart_flow_end_to_end [of world_helper_fails "unicode_of ''ABCD-1234''"]
    by (simp add: world_helper_fails_def world_ready_def filevault_is_active_def
        supports_auth_restart_def get_auth_restart_key_def perform_auth_restart_def
        Let_def strip_def isspace_def unicode_of_def)
  from a b show ?thesis by simp
qed

subsection \<open>RestartDecisionFlow: the deciding step\<close>

text \<open>
  C5. The flow first evaluates the restricted eligibility check: the preference
  \<^verbatim>\<open>PerformAuthRestarts\<close>, the preference \<^verbatim>\<open>RecoveryKeyFile\<close>, OS version at least
  (10, 8), FileVault active. Evaluating it starts no process but the FileVault status
  query, so not the capability probe, and reads no credential file. The executor is
  attempted exactly when the check holds.
\<close>

theorem deciding_restricted_eligibility:
  "snd (do_authorized_or_normal_restart w) =
     deciding_events w
     @ (if restricted_eligibility w
        then [Display Debug1 ''Configured to perform AuthRestarts...'' []]
             @ snd (perform_auth_restart w)
             @ (if fst (perform_auth_restart w) = Inr False
                then [Display Warning
                        ''Authorized Restart failed. Performing normal restart...'' []]
                     @ fallback_events
                else [])
        else if deciding_raises w then [] else fallback_events)
   \<and> (restricted_eligibility w \<longleftrightarrow>
        truthy (pref w ''PerformAuthRestarts'')
        \<and> truthy (pref w ''RecoveryKeyFile'')
        \<and> tuple_ge (getOsVersion w) [10, 8]
        \<and> fst (filevault_is_active w) = Inr True)
   \<and> (deciding_raises w \<longleftrightarrow>
        truthy (pref w ''PerformAuthRestarts'')
        \<and> truthy (pref w ''RecoveryKeyFile'')
        \<and> tuple_ge (getOsVersion w) [10, 8]
        \<and> (\<exists>e. fst (filevault_is_active w) = Inl e))
   \<and> spawns (deciding_events w) =
       (if truthy (pref w ''PerformAuthRestarts'') \<and> truthy (pref w ''RecoveryKeyFile'')
            \<and> tuple_ge (getOsVersion w) [10, 8]
        then [isactive_cmd] else [])
   \<and> CheckOutput supportsauthrestart_cmd \<notin> set (deciding_events w)
   \<and> (\<forall>p. ReadPlist p \<notin> set (deciding_events w))
   \<and> (executor_started \<in> set (snd (do_authorized_or_normal_restart w)) \<longleftrightarrow>
        restricted_eligibility w)"
proof -
  obtain t where t: "snd (perform_auth_restart w) = executor_started # t"
    using perform_starts by blast
  have x: "executor_started \<in> set (snd (do_authorized_or_normal_restart w)) \<longleftrightarrow>
        restricted_eligibility w"
    using deciding_no_executor [of w]
    by (auto simp add: flow_events t fallback_events_def executor_started_def)
  have r: "deciding_raises w \<longleftrightarrow>
        truthy (pref w ''PerformAuthRestarts'')
        \<and> truthy (pref w ''RecoveryKeyFile'')
        \<and> tuple_ge (getOsVersion w) [10, 8]
        \<and> (\<exists>e. fst (filevault_is_active w) = Inl e)"
    by (auto simp add: deciding_raises_def isl_def)
  show ?thesis
    using x r flow_events [of w] deciding_spawns [of w] deciding_no_capability_probe [of w]
      deciding_no_lookup [of _ w]
    by (simp add: restricted_eligibility_def)
qed

theorem deciding_restricted_eligibility_witness:
  "restricted_eligibility world_ready
   \<and> executor_started \<in> set (snd (do_authorized_or_normal_restart world_ready))
   \<and> \<not> restricted_eligibility world_filevault_off
   \<and> executor_started \<notin> set (snd (do_authorized_or_normal_restart world_filevault_off))
   \<and> spawns (deciding_events world_ready) = [isactive_cmd]"
proof -
  note r = deciding_restricted_eligibility [of world_ready]
  note f = deciding_restricted_eligibility [of world_filevault_off]
  have c1: "truthy (pref world_ready ''PerformAuthRestarts'')
      \<and> truthy (pref world_ready ''RecoveryKeyFile'')
      \<and> tuple_ge (getOsVersion world_ready) [10, 8]
      \<and> fst (filevault_is_active world_ready) = Inr True"
    by (simp add: world_ready_def filevault_is_active_def Let_def)
  have c2: "fst (filevault_is_active world_filevault_off) \<noteq> Inr True"
    by (simp add: world_filevault_off_def world_ready_def filevault_is_active_def Let_def)
  from r c1 have a1: "restricted_eligibility world_ready" by blast
  from r a1 have a2:
    "executor_started \<in> set (snd (do_authorized_or_normal_restart world_ready))"
    by blast
  from r c1 have a3: "spawns (deciding_events world_ready) = [isactive_cmd]" by simp
  from f c2 have b1: "\<not> restricted_eligibility world_filevault_off" by blast
  from f b1 have b2:
    "executor_started \<notin> set (snd (do_authorized_or_normal_restart world_filevault_off))"
    by blast
  from a1 a2 a3 b1 b2 show ?thesis by simp
qed

subsection \<open>AuthorizedRestartExecutor: refusing\<close>

text \<open>
  C6. \<open>perform_auth_restart\<close> first asks the capability probe again. If the probe says
  no, it returns failure having started no process but the probe's, read neither the
  preference \<^verbatim>\<open>RecoveryKeyFile\<close> nor a credential file, and written to no helper.
  Otherwise it looks the credential up; if that is empty it returns failure, again
  having started no process but the probe's.
\<close>

theorem perform_auth_restart_refuses:
  "(fst (supports_auth_restart w) = Inr False \<longrightarrow>
      perform_auth_restart w =
        (Inr False,
         [Display Debug1 ''Checking if performing an Auth Restart is fully supported...'' []]
         @ snd (supports_auth_restart w)
         @ [Display Warning msg_unsupported []])
      \<and> spawns (snd (perform_auth_restart w)) = [supportsauthrestart_cmd]
      \<and> Pref ''RecoveryKeyFile'' \<notin> set (snd (perform_auth_restart w))
      \<and> (\<forall>p. ReadPlist p \<notin> set (snd (perform_auth_restart w)))
      \<and> (\<forall>i. Communicate i \<notin> set (snd (perform_auth_restart w))))
   \<and> (fst (supports_auth_restart w) = Inr True
        \<and> fst (get_auth_restart_key w) = Inr [] \<longrightarrow>
      perform_auth_restart w =
        (Inr False,
         [Display Debug1 ''Checking if performing an Auth Restart is fully supported...'' []]
         @ snd (supports_auth_restart w)
         @ [Display Debug1 ''Machine supports Authorized Restarts...'' []]
         @ snd (get_auth_restart_key w))
      \<and> spawns (snd (perform_auth_restart w)) = [supportsauthrestart_cmd]
      \<and> (\<forall>i. Communicate i \<notin> set (snd (perform_auth_restart w))))"
proof (intro conjI impI)
  assume a: "fst (supports_auth_restart w) = Inr False"
  note p = perform_refused [OF a]
  show "perform_auth_restart w =
        (Inr False,
         [Display Debug1 ''Checking if performing an Auth Restart is fully supported...'' []]
         @ snd (supports_auth_restart w)
         @ [Display Warning msg_unsupported []])"
    by (rule p)
  show "spawns (snd (perform_auth_restart w)) = [supportsauthrestart_cmd]"
    by (simp add: p spawns_append supports_spawns)
  show "Pref ''RecoveryKeyFile'' \<notin> set (snd (perform_auth_restart w))"
    using supports_events [of "Pref ''RecoveryKeyFile''" w] by (auto simp: p)
  show "\<forall>p. ReadPlist p \<notin> set (snd (perform_auth_restart w))"
    using supports_events [of _ w] by (fastforce simp: p)
  show "\<forall>i. Communicate i \<notin> set (snd (perform_auth_restart w))"
    using supports_events [of _ w] by (fastforce simp: p)
next
  assume b: "fst (supports_auth_restart w) = Inr True
    \<and> fst (get_auth_restart_key w) = Inr []"
  then have p: "perform_auth_restart w =
        (Inr False,
         [Display Debug1 ''Checking if performing an Auth Restart is fully supported...'' []]
         @ snd (supports_auth_restart w)
         @ [Display Debug1 ''Machine supports Authorized Restarts...'' []]
         @ snd (get_auth_restart_key w))"
    using perform_no_key by blast
  show "perform_auth_restart w =
        (Inr False,
         [Display Debug1 ''Checking if performing an Auth Restart is fully supported...'' []]
         @ snd (supports_auth_restart w)
         @ [Display Debug1 ''Machine supports Authorized Restarts...'' []]
         @ snd (get_auth_restart_key w))"
    by (rule p)
  show "spawns (snd (perform_auth_restart w)) = [supportsauthrestart_cmd]"
    by (simp add: p spawns_append supports_spawns key_spawns)
  show "\<forall>i. Communicate i \<notin> set (snd (perform_auth_restart w))"
    using supports_events [of _ w] key_events [of _ w] by (fastforce simp: p)
qed

theorem perform_auth_restart_refuses_witness:
  "perform_auth_restart world_unsupported =
     (Inr False,
      [Display Debug1 ''Checking if performing an Auth Restart is fully supported...'' [],
       Display Debug1 ''Checking if FileVault can perform an AuthRestart...'' [],
       CheckOutput [''/usr/bin/fdesetup'', ''supportsauthrestart''],
       Display Warning ''FileVault AuthRestart is not supported...'' [],
       Display Warning msg_unsupported []])
   \<and> perform_auth_restart world_no_key =
     (Inr False,
      [Display Debug1 ''Checking if performing an Auth Restart is fully supported...'' [],
       Display Debug1 ''Checking if FileVault can perform an AuthRestart...'' [],
       CheckOutput [''/usr/bin/fdesetup'', ''supportsauthrestart''],
       Display Debug1 ''FileVault supports AuthRestart...'' [],
       Display Debug1 ''Machine supports Authorized Restarts...'' [],
       Pref ''RecoveryKeyFile'',
       Display Debug1 ''RecoveryKeyFile preference is set to %s...''
         [PStr ''/var/root/key.plist''],
       ReadPlist (PStr ''/var/root/key.plist''),
       Display Error ''Problem with key: RecoveryKey in %s...''
         [PStr ''/var/root/key.plist'']])"
  using perform_auth_restart_refuses [of world_unsupported]
    perform_auth_restart_refuses [of world_no_key]
  by (simp add: world_no_key_def world_unsupported_def world_ready_def probe_defs)

subsection \<open>RecoveryCredentialLookup\<close>

text \<open>
  The paths of \<open>get_auth_restart_key\<close>. When the preference is not set it returns the
  empty string after a warning; when the document cannot be read, or is a dictionary
  without a \<^verbatim>\<open>RecoveryKey\<close> field, it returns the empty string after an error message
  that carries the path; when the field is a string it returns it with the whitespace
  at both ends removed (the field is that result between two runs of whitespace, and
  the result neither starts nor ends with whitespace). When the root of the document is
  not a dictionary, or the field is not a string, an exception leaves the lookup.
\<close>

lemma get_auth_restart_key_paths:
  "(\<not> truthy (pref w ''RecoveryKeyFile'') \<longrightarrow>
      get_auth_restart_key w =
        (Inr [], [Pref ''RecoveryKeyFile'',
              Display Warning ''RecoveryKeyFile preference is not set'' []]))
   \<and> (truthy (pref w ''RecoveryKeyFile'')
        \<and> readPlist w (pref w ''RecoveryKeyFile'') = NSPropertyListSerializationException \<longrightarrow>
      get_auth_restart_key w =
        (Inr [], [Pref ''RecoveryKeyFile'',
              Display Debug1 ''RecoveryKeyFile preference is set to %s...''
                [pref w ''RecoveryKeyFile''],
              ReadPlist (pref w ''RecoveryKeyFile''),
              Display Error ''We had trouble getting info from %s...''
                [pref w ''RecoveryKeyFile'']]))
   \<and> (truthy (pref w ''RecoveryKeyFile'')
        \<and> readPlist w (pref w ''RecoveryKeyFile'') = Dictionary d
        \<and> d ''RecoveryKey'' = None \<longrightarrow>
      get_auth_restart_key w =
        (Inr [], [Pref ''RecoveryKeyFile'',
              Display Debug1 ''RecoveryKeyFile preference is set to %s...''
                [pref w ''RecoveryKeyFile''],
              ReadPlist (pref w ''RecoveryKeyFile''),
              Display Error ''Problem with key: RecoveryKey in %s...''
                [pref w ''RecoveryKeyFile'']]))
   \<and> (truthy (pref w ''RecoveryKeyFile'')
        \<and> readPlist w (pref w ''RecoveryKeyFile'') = Dictionary d
        \<and> d ''RecoveryKey'' = Some (PlString v) \<longrightarrow>
      get_auth_restart_key w =
        (Inr (strip v), [Pref ''RecoveryKeyFile'',
              Display Debug1 ''RecoveryKeyFile preference is set to %s...''
                [pref w ''RecoveryKeyFile''],
              ReadPlist (pref w ''RecoveryKeyFile'')])
      \<and> (\<exists>l r. v = l @ strip v @ r \<and> list_all isspace l \<and> list_all isspace r)
      \<and> (\<forall>c s. strip v = c # s \<longrightarrow> \<not> isspace c)
      \<and> (\<forall>c s. strip v = s @ [c] \<longrightarrow> \<not> isspace c))
   \<and> (truthy (pref w ''RecoveryKeyFile'')
        \<and> readPlist w (pref w ''RecoveryKeyFile'') = Dictionary d
        \<and> d ''RecoveryKey'' = Some PlNotString \<longrightarrow>
      fst (get_auth_restart_key w) = Inl AttributeError)
   \<and> (truthy (pref w ''RecoveryKeyFile'')
        \<and> readPlist w (pref w ''RecoveryKeyFile'') = NotDictionary \<longrightarrow>
      fst (get_auth_restart_key w) = Inl TypeError)
   \<and> strip (unicode_of ''  ABCD-1234  '') = unicode_of ''ABCD-1234''
   \<and> strip [0x1F, 0x41, 0x42, 0x43, 0x44, 0x1F] = [0x41, 0x42, 0x43, 0x44]
   \<and> strip [0xA0] = []"
proof -
  have trimmed: "(\<exists>l r. v = l @ strip v @ r \<and> list_all isspace l \<and> list_all isspace r)
      \<and> (\<forall>c s. strip v = c # s \<longrightarrow> \<not> isspace c)
      \<and> (\<forall>c s. strip v = s @ [c] \<longrightarrow> \<not> isspace c)"
    using strip_decomp [of v] strip_no_leading_space [of v] strip_no_trailing_space [of v]
    by blast
  have ex: "strip (unicode_of ''  ABCD-1234  '') = unicode_of ''ABCD-1234''"
    "strip [0x1F, 0x41, 0x42, 0x43, 0x44, 0x1F] = [0x41, 0x42, 0x43, 0x44]"
    "strip [0xA0] = []"
    by (simp_all add: strip_def isspace_def unicode_of_def)
  show ?thesis
    using trimmed ex by (simp add: get_auth_restart_key_def Let_def)
qed

text \<open>
  C7. The lookup is to return the empty string in every failure case, never an
  exception, as its docstring says too. It does not: a credential document whose
  \<^verbatim>\<open>RecoveryKey\<close> field is not a string makes \<^verbatim>\<open>strip\<close> raise \<^verbatim>\<open>AttributeError\<close>,
  and a document whose root is not a dictionary makes the indexing raise
  \<^verbatim>\<open>TypeError\<close>; the \<^verbatim>\<open>try\<close> block catches neither, and the exception leaves
  \<open>get_auth_restart_key\<close>.
\<close>

theorem get_auth_restart_key_uncaught:
  "get_auth_restart_key world_key_not_string =
     (Inl AttributeError,
      [Pref ''RecoveryKeyFile'',
       Display Debug1 ''RecoveryKeyFile preference is set to %s...''
         [PStr ''/var/root/key.plist''],
       ReadPlist (PStr ''/var/root/key.plist'')])
   \<and> get_auth_restart_key world_plist_not_dict =
     (Inl TypeError,
      [Pref ''RecoveryKeyFile'',
       Display Debug1 ''RecoveryKeyFile preference is set to %s...''
         [PStr ''/var/root/key.plist''],
       ReadPlist (PStr ''/var/root/key.plist'')])
   \<and> fst (get_auth_restart_key world_key_not_string) \<noteq> Inr []
   \<and> fst (get_auth_restart_key world_plist_not_dict) \<noteq> Inr []"
  by (simp add: get_auth_restart_key_def world_key_not_string_def world_plist_not_dict_def
      world_ready_def Let_def)

subsection \<open>FileVaultStatusProbe\<close>

text \<open>
  C8. The claim that no exception escapes \<open>filevault_is_active\<close> fails: the probe
  catches \<^verbatim>\<open>CalledProcessError\<close> only, and when the status command cannot be
  launched the \<^verbatim>\<open>OSError\<close> of \<^verbatim>\<open>check_output\<close> leaves it.
\<close>

theorem filevault_is_active_oserror_counterexample:
  "filevault_is_active world_cannot_launch =
     (Inl OSError,
      [Display Debug1 ''Checking if FileVault is enabled...'' [],
       CheckOutput [''/usr/bin/fdesetup'', ''isactive'']])
   \<and> fst (filevault_is_active world_cannot_launch) \<noteq> Inr False"
  by (simp add: filevault_is_active_def world_cannot_launch_def world_ready_def Let_def)

text \<open>
  C8, as the code has it. \<open>filevault_is_active\<close> returns true exactly when the status
  command exits successfully and its output contains \<^verbatim>\<open>true\<close>. Whenever the command
  was launched the probe returns a boolean and no exception escapes: a non-zero exit
  (the \<^verbatim>\<open>CalledProcessError\<close>) is caught and gives false with one warning, chosen by
  the captured output (containing \<^verbatim>\<open>false\<close>, empty, or anything else, which is logged
  as it is); a successful exit without \<^verbatim>\<open>true\<close> gives false and logs nothing more.
  When the command cannot be launched, and only then, the \<^verbatim>\<open>OSError\<close> leaves the
  probe.
\<close>

theorem filevault_is_active_total:
  "(fst (filevault_is_active w) = Inr True \<longleftrightarrow>
      (\<exists>out. check_output w isactive_cmd = Returned out \<and> str_in ''true'' out))
   \<and> fst (filevault_is_active w) =
       (case check_output w isactive_cmd of
          Returned out \<Rightarrow> Inr (str_in ''true'' out)
        | CalledProcessError out \<Rightarrow> Inr False
        | CannotLaunch \<Rightarrow> Inl OSError)
   \<and> ((\<exists>b. fst (filevault_is_active w) = Inr b) \<longleftrightarrow>
        check_output w isactive_cmd \<noteq> CannotLaunch)
   \<and> snd (filevault_is_active w) =
       [Display Debug1 ''Checking if FileVault is enabled...'' [], CheckOutput isactive_cmd] @
       (case check_output w isactive_cmd of
          Returned out \<Rightarrow> []
        | CalledProcessError out \<Rightarrow>
            [Display Warning
               (if str_in ''false'' out then ''FileVault appears to be disabled...''
                else if out = [] then ''Encountered problem determining FileVault status...''
                else out) []]
        | CannotLaunch \<Rightarrow> [])"
  by (auto simp add: filevault_is_active_def isactive_cmd_def Let_def split: completed.split)

theorem filevault_is_active_total_witness:
  "fst (filevault_is_active world_ready) = Inr True
   \<and> filevault_is_active world_filevault_off =
       (Inr False, [Display Debug1 ''Checking if FileVault is enabled...'' [],
                CheckOutput [''/usr/bin/fdesetup'', ''isactive''],
                Display Warning ''FileVault appears to be disabled...'' []])"
proof -
  have a: "fst (filevault_is_active world_ready) = Inr True"
    using filevault_is_active_total [of world_ready]
    by (simp add: world_ready_def isactive_cmd_def)
  have b: "fst (filevault_is_active world_filevault_off) = Inr False
    \<and> snd (filevault_is_active world_filevault_off) =
       [Display Debug1 ''Checking if FileVault is enabled...'' [],
                CheckOutput [''/usr/bin/fdesetup'', ''isactive''],
                Display Warning ''FileVault appears to be disabled...'' []]"
    using filevault_is_active_total [of world_filevault_off]
    by (simp add: world_filevault_off_def world_ready_def isactive_cmd_def)
  from a b show ?thesis by (simp add: prod_eq_iff)
qed

subsection \<open>AuthorizedRestartExecutor: no OS version floor\<close>

text \<open>
  C10. When the capability probe says yes and the credential is not empty,
  \<open>perform_auth_restart\<close> starts the helper and writes the credential to it whatever
  the OS version is, also below (10, 8). The OS version is read once, after the helper
  has run, and only the (10, 12) rule of the classification depends on it.
\<close>

theorem perform_auth_restart_no_version_floor:
  assumes "fst (supports_auth_restart w) = Inr True"
    and "fst (get_auth_restart_key w) = Inr k" and "k \<noteq> []"
  shows "snd (perform_auth_restart w) =
           [Display Debug1 ''Checking if performing an Auth Restart is fully supported...'' []]
           @ snd (supports_auth_restart w)
           @ [Display Debug1 ''Machine supports Authorized Restarts...'' []]
           @ snd (get_auth_restart_key w)
           @ [WritePlistToString [(''Password'', k)],
              Display Info ''Attempting an Authorized Restart now...'' [],
              Popen authrestart_cmd,
              Communicate (writePlistToString w [(''Password'', k)]),
              GetOsVersion]
           @ (if fst (perform_auth_restart w) = Inr True then []
              else [Display Error (helper_stderr w) []])
         \<and> GetOsVersion \<notin> set (snd (supports_auth_restart w))
         \<and> GetOsVersion \<notin> set (snd (get_auth_restart_key w))
         \<and> fst (perform_auth_restart w) =
             Inr (tuple_ge (getOsVersion w) [10, 12]
                    \<and> str_in ''System is being restarted'' (helper_stderr w)
                  \<or> helper_stderr w = [])
         \<and> (\<forall>v. spawns (snd (perform_auth_restart (w\<lparr>getOsVersion := v\<rparr>))) =
                  [supportsauthrestart_cmd, authrestart_cmd]
                \<and> Communicate (writePlistToString w [(''Password'', k)])
                    \<in> set (snd (perform_auth_restart (w\<lparr>getOsVersion := v\<rparr>))))"
proof -
  note p = perform_helper [OF assms]
  have t: "snd (perform_auth_restart w) =
           [Display Debug1 ''Checking if performing an Auth Restart is fully supported...'' []]
           @ snd (supports_auth_restart w)
           @ [Display Debug1 ''Machine supports Authorized Restarts...'' []]
           @ snd (get_auth_restart_key w)
           @ [WritePlistToString [(''Password'', k)],
              Display Info ''Attempting an Authorized Restart now...'' [],
              Popen authrestart_cmd,
              Communicate (writePlistToString w [(''Password'', k)]),
              GetOsVersion]
           @ (if fst (perform_auth_restart w) = Inr True then []
              else [Display Error (helper_stderr w) []])"
    by (auto simp add: p)
  have r: "fst (perform_auth_restart w) =
             Inr (tuple_ge (getOsVersion w) [10, 12]
                    \<and> str_in ''System is being restarted'' (helper_stderr w)
                  \<or> helper_stderr w = [])"
    by (simp add: p)
  have v: "spawns (snd (perform_auth_restart (w\<lparr>getOsVersion := v\<rparr>))) =
                  [supportsauthrestart_cmd, authrestart_cmd]
                \<and> Communicate (writePlistToString w [(''Password'', k)])
                    \<in> set (snd (perform_auth_restart (w\<lparr>getOsVersion := v\<rparr>)))" for v
  proof -
    let ?w = "w\<lparr>getOsVersion := v\<rparr>"
    have s: "fst (supports_auth_restart ?w) = Inr True"
      using assms(1) by (simp add: supports_osversion_indep)
    have k: "fst (get_auth_restart_key ?w) = Inr k"
      using assms(2) by (simp add: key_osversion_indep)
    note q = perform_helper [OF s k assms(3)]
    show ?thesis
      by (simp add: q spawns_append supports_spawns key_spawns)
  qed
  from t r v supports_no_osversion [of w] key_no_osversion [of w] show ?thesis by blast
qed

theorem perform_auth_restart_no_version_floor_witness:
  "\<not> tuple_ge (getOsVersion world_old_os) [10, 8]
   \<and> snd (perform_auth_restart world_old_os) =
      [Display Debug1 ''Checking if performing an Auth Restart is fully supported...'' [],
       Display Debug1 ''Checking if FileVault can perform an AuthRestart...'' [],
       CheckOutput [''/usr/bin/fdesetup'', ''supportsauthrestart''],
       Display Debug1 ''FileVault supports AuthRestart...'' [],
       Display Debug1 ''Machine supports Authorized Restarts...'' [],
       Pref ''RecoveryKeyFile'',
       Display Debug1 ''RecoveryKeyFile preference is set to %s...''
         [PStr ''/var/root/key.plist''],
       ReadPlist (PStr ''/var/root/key.plist''),
       WritePlistToString [(''Password'', unicode_of ''ABCD-1234'')],
       Display Info ''Attempting an Authorized Restart now...'' [],
       Popen [''/usr/bin/fdesetup'', ''authrestart'', ''-inputplist''],
       Communicate ''<plist><dict>...</dict></plist>'',
       GetOsVersion]"
  using perform_auth_restart_no_version_floor [of world_old_os "unicode_of ''ABCD-1234''"]
  by (simp add: world_old_os_def world_ready_def probe_defs)


end
